theory Spec2Isabelle
  imports Main "HOL-Library.Sublist"
begin

section \<open>Wheelman: a shallow embedding of \<^verbatim>\<open>wheelman.py\<close>\<close>

text \<open>
  The script is a straight line of statements at module level: load the configuration,
  prepare the environment, build every target of the selected group, publish. Each of
  these parts is a function below. What the script does to the outside (printing,
  deleting directories, copying files, running subprocesses) is recorded as a list of
  events; what the outside answers (the result of loading the file, whether a deletion
  raises, a subprocess's return code, the environment variables) is read from a
  \<open>world\<close>, a record of functions that may depend on the events so far. A call of
  \<^verbatim>\<open>exit\<close> and an exception nobody catches both end the run and are values of the
  type \<open>outcome\<close>.

  The model starts at the statement \<^verbatim>\<open>print('* Loading config file from %s' ...)\<close>
  (line 92); the statements before it (the banner, the imports, the argument parser) are
  not modelled, and the two parsed command-line arguments, \<^verbatim>\<open>args.target\<close> and
  \<^verbatim>\<open>args.config_file\<close>, are parameters. Calls of \<^verbatim>\<open>sys.stdout.flush()\<close> are
  not recorded.

  The script needs Python 3 (\<^verbatim>\<open>subprocess.run\<close>, \<^verbatim>\<open>allow_abbrev\<close>), and its line 100
  reads \<^verbatim>\<open>except yaml.YAMLError, exc:\<close>. Python 3 up to 3.13 rejects that line as a syntax
  error, and then no statement of the script runs at all. From Python 3.14 the line is
  accepted, as a clause for the tuple of the two classes \<^verbatim>\<open>yaml.YAMLError\<close> and
  \<^verbatim>\<open>exc\<close>. The model is the script as the interpreters that accept it run it.
\<close>

subsection \<open>Values read from the configuration file\<close>

text \<open>
  \<^verbatim>\<open>yaml.load\<close> returns an untyped Python value. The model has the values of plain
  YAML documents: null, booleans, integers, strings, sequences and mappings. A mapping is
  an association list that stands for a \<^verbatim>\<open>dict\<close>; a key is looked up with
  \<open>map_of\<close>. Floating-point scalars and objects built from Python-specific tags are
  left out.
\<close>

datatype yaml =
    YNull
  | YBool bool
  | YInt int
  | YStr string
  | YSeq "yaml list"
  | YMap "(yaml \<times> yaml) list"

datatype py_exception = KeyError | TypeError | AttributeError | NameError | OSError

text \<open>\<^verbatim>\<open>bool(v)\<close>: the truth value Python gives a value in \<^verbatim>\<open>if\<close>, \<^verbatim>\<open>not\<close>,
  \<^verbatim>\<open>and\<close>, \<^verbatim>\<open>or\<close>.\<close>

fun truthy :: "yaml \<Rightarrow> bool" where
  "truthy YNull = False"
| "truthy (YBool b) = b"
| "truthy (YInt i) = (i \<noteq> 0)"
| "truthy (YStr s) = (s \<noteq> [])"
| "truthy (YSeq xs) = (xs \<noteq> [])"
| "truthy (YMap kvs) = (kvs \<noteq> [])"

text \<open>\<^verbatim>\<open>v[k]\<close> with a string key \<open>k\<close>: a \<^verbatim>\<open>dict\<close> without the key raises
  \<^verbatim>\<open>KeyError\<close>, every other value raises \<^verbatim>\<open>TypeError\<close>.\<close>

fun subscript :: "yaml \<Rightarrow> string \<Rightarrow> py_exception + yaml" where
  "subscript (YMap kvs) k =
     (case map_of kvs (YStr k) of None \<Rightarrow> Inl KeyError | Some v \<Rightarrow> Inr v)"
| "subscript YNull k = Inl TypeError"
| "subscript (YBool b) k = Inl TypeError"
| "subscript (YInt i) k = Inl TypeError"
| "subscript (YStr s) k = Inl TypeError"
| "subscript (YSeq xs) k = Inl TypeError"

text \<open>\<^verbatim>\<open>v.get(k, d)\<close>: only a \<^verbatim>\<open>dict\<close> has the method; on any other value the
  attribute lookup raises \<^verbatim>\<open>AttributeError\<close>.\<close>

fun dict_get :: "yaml \<Rightarrow> string \<Rightarrow> yaml \<Rightarrow> py_exception + yaml" where
  "dict_get (YMap kvs) k d =
     Inr (case map_of kvs (YStr k) of None \<Rightarrow> d | Some v \<Rightarrow> v)"
| "dict_get YNull k d = Inl AttributeError"
| "dict_get (YBool b) k d = Inl AttributeError"
| "dict_get (YInt i) k d = Inl AttributeError"
| "dict_get (YStr s) k d = Inl AttributeError"
| "dict_get (YSeq xs) k d = Inl AttributeError"

text \<open>\<^verbatim>\<open>for x in v\<close>: a list gives its elements, a \<^verbatim>\<open>dict\<close> its keys, a string
  its characters (one-character strings); the rest is not iterable.\<close>

fun iterate :: "yaml \<Rightarrow> py_exception + yaml list" where
  "iterate (YSeq xs) = Inr xs"
| "iterate (YMap kvs) = Inr (map fst kvs)"
| "iterate (YStr s) = Inr (map (\<lambda>c. YStr [c]) s)"
| "iterate YNull = Inl TypeError"
| "iterate (YBool b) = Inl TypeError"
| "iterate (YInt i) = Inl TypeError"

subsection \<open>Exit codes\<close>

text \<open>The class \<^verbatim>\<open>ExitCodes\<close> as the table of its attributes. An attribute the class
  does not define has no entry.\<close>

definition ExitCodes :: "string \<Rightarrow> int option" where
  "ExitCodes = map_of
     [(''SUCCESS'', 0),
      (''UNSPECIFIED'', 1),
      (''MISSING_DEPENDENCIES'', 10),
      (''CONFIG_FILE_NOT_FOUND'', 11),
      (''CONFIG_YAML_PARSING_ERROR'', 12),
      (''BUILD_FAILED_WHEEL'', 20),
      (''BUILD_FAILED_SOURCE_DIST'', 21),
      (''PIP_FAILURE'', 30),
      (''PYPI_FAILURE'', 50),
      (''PYPI_MISSING_ENVIRONMENT_VARS'', 51),
      (''PYPI_MISSING_CONFIG_VARS'', 52)]"

datatype outcome = Exit int | Uncaught py_exception

text \<open>\<^verbatim>\<open>exit(ExitCodes.NAME)\<close>: the attribute is evaluated first, and a missing one
  raises \<^verbatim>\<open>AttributeError\<close> before \<^verbatim>\<open>exit\<close> is called.\<close>

definition exit_with :: "string \<Rightarrow> outcome" where
  "exit_with name =
     (case ExitCodes name of None \<Rightarrow> Uncaught AttributeError | Some c \<Rightarrow> Exit c)"

subsection \<open>Events and the world\<close>

text \<open>A string the script builds: a literal, or \<^verbatim>\<open>fmt % args\<close> kept as the format
  and its arguments.\<close>

datatype pystr = Lit string | Fmt string "yaml list"

datatype run_result = ReturnCode int | Raised py_exception

text \<open>Each event carries what the outside answered: \<open>Rmtree p failed\<close>,
  \<open>Copyfile src dst failed\<close>, \<open>Run cmd result\<close>, \<open>ImportTwine file\<close>.\<close>

datatype event =
    Print pystr
  | LoadConfig string
  | Rmtree pystr bool
  | Copyfile yaml pystr bool
  | Run "yaml list" run_result
  | ImportTwine "string option"

text \<open>
  What \<^verbatim>\<open>yaml.load\<close> raises on a malformed document: a plain \<^verbatim>\<open>YAMLError\<close>
  (the reader's errors), which has no attribute \<^verbatim>\<open>problem_mark\<close>, or a marked
  error, whose \<^verbatim>\<open>problem_mark\<close> holds the line and the column of the failure, both
  counted from 0.
\<close>

datatype yaml_error = PlainYAMLError | MarkedYAMLError nat nat

text \<open>The result of the \<^verbatim>\<open>try\<close> block that opens, reads and parses the file.\<close>

datatype load_result =
    Loaded yaml
  | OpenFailed
  | YAMLError yaml_error
  | OtherException

record world =
  load_config :: "string \<Rightarrow> load_result"
  rmtree_fails :: "event list \<Rightarrow> pystr \<Rightarrow> bool"
  copyfile_fails :: "event list \<Rightarrow> yaml \<Rightarrow> pystr \<Rightarrow> bool"
  run :: "event list \<Rightarrow> yaml list \<Rightarrow> run_result"
  import_twine :: "event list \<Rightarrow> string option"
  environ :: "string \<Rightarrow> string option"
  sys_executable :: string

text \<open>The script's variables: \<^verbatim>\<open>config\<close>, \<^verbatim>\<open>py_exe\<close> (\<open>None\<close> while the name
  is not bound), and the events so far.\<close>

record state =
  config :: yaml
  py_exe :: "yaml option"
  trace :: "event list"

text \<open>A part of the script either ends the run (\<open>Inl\<close>: how, and the events up to
  there) or hands on a value.\<close>

type_synonym 'a result = "(outcome \<times> event list) + 'a"

definition banner :: string where
  "banner = replicate 2 (CHR 0x0A) @ replicate 80 (CHR ''*'')"

subsection \<open>Configuration Loader\<close>

text \<open>
  Lines 92 to 111. The \<^verbatim>\<open>try\<close> block opens, reads and parses the file. When it raises,
  the interpreter evaluates the expression of the first \<^verbatim>\<open>except\<close> clause,
  \<^verbatim>\<open>yaml.YAMLError, exc\<close>, to compare the exception with it. Nothing has bound the name
  \<^verbatim>\<open>exc\<close>, so the evaluation raises \<^verbatim>\<open>NameError\<close>. That exception is raised outside
  the \<^verbatim>\<open>try\<close> block: the second clause, \<^verbatim>\<open>except Exception\<close>, does not catch it, and
  neither handler body (the messages, \<^verbatim>\<open>exit(ExitCodes.CONFIG_YAML_PARSING_ERROR)\<close>,
  \<^verbatim>\<open>exit(ExitCodes.CONFIG_FILE_NOT_FOUND)\<close>) is ever run. This holds for every kind of
  failure of the block.
\<close>

definition config_loader :: "world \<Rightarrow> string \<Rightarrow> state result" where
  "config_loader w config_file =
     (let tr = [Print (Fmt ''* Loading config file from %s'' [YStr config_file]),
                LoadConfig config_file]
      in case load_config w config_file of
           Loaded c \<Rightarrow> Inr \<lparr>config = c, py_exe = None, trace = tr\<rparr>
         | OpenFailed \<Rightarrow> Inl (Uncaught NameError, tr)
         | YAMLError exc \<Rightarrow> Inl (Uncaught NameError, tr)
         | OtherException \<Rightarrow> Inl (Uncaught NameError, tr))"

subsection \<open>Environment Prep\<close>

text \<open>The loop over \<^verbatim>\<open>config['include_files']\<close>. \<^verbatim>\<open>config['name']\<close> is evaluated
  in each iteration; a failing copy is not caught.\<close>

fun copy_files :: "world \<Rightarrow> yaml \<Rightarrow> yaml list \<Rightarrow> event list \<Rightarrow> event list result" where
  "copy_files w c [] tr = Inr tr"
| "copy_files w c (name # names) tr =
     (case subscript c ''name'' of
        Inl e \<Rightarrow> Inl (Uncaught e, tr)
      | Inr pkg \<Rightarrow>
          (let tr1 = tr @ [Print (Fmt ''* Copying file %s into folder %s'' [name, pkg])];
               dst = Fmt ''%s/%s'' [pkg, name];
               failed = copyfile_fails w tr1 name dst;
               tr2 = tr1 @ [Copyfile name dst failed]
           in if failed then Inl (Uncaught OSError, tr2) else copy_files w c names tr2))"

text \<open>\<^verbatim>\<open>shutil.rmtree("dist")\<close> sits in \<^verbatim>\<open>try ... except Exception: pass\<close>: the
  event records whether it raised, and the script goes on either way.\<close>

definition env_prep :: "world \<Rightarrow> state \<Rightarrow> state result" where
  "env_prep w st =
     (let tr0 = trace st @ [Print (Lit banner), Print (Lit ''* Prepping environment.''),
                            Print (Lit ''* Deleting potential leftover dist folder.'')];
          tr1 = tr0 @ [Rmtree (Lit ''dist'') (rmtree_fails w tr0 (Lit ''dist''))]
      in case subscript (config st) ''include_files'' of
           Inl e \<Rightarrow> Inl (Uncaught e, tr1)
         | Inr files \<Rightarrow>
             (case iterate files of
                Inl e \<Rightarrow> Inl (Uncaught e, tr1)
              | Inr names \<Rightarrow>
                  (case copy_files w (config st) names tr1 of
                     Inl h \<Rightarrow> Inl h
                   | Inr tr2 \<Rightarrow> Inr (st\<lparr>trace := tr2\<rparr>))))"

subsection \<open>Target Builder\<close>

text \<open>\<^verbatim>\<open>if run(cmd).returncode != 0: print(...); exit(ExitCodes.NAME)\<close>, the pattern
  of every subprocess call of the script. \<^verbatim>\<open>run\<close> itself may raise (the program
  is not found, an argument is not a string); nothing catches that.\<close>

definition run_checked ::
  "world \<Rightarrow> event list \<Rightarrow> yaml list \<Rightarrow> pystr list \<Rightarrow> string \<Rightarrow> event list result" where
  "run_checked w tr cmd msgs code =
     (let r = run w tr cmd; tr1 = tr @ [Run cmd r]
      in case r of
           Raised e \<Rightarrow> Inl (Uncaught e, tr1)
         | ReturnCode rc \<Rightarrow>
             if rc \<noteq> 0 then Inl (exit_with code, tr1 @ map Print msgs) else Inr tr1)"

definition install_wheel_cmd :: "yaml \<Rightarrow> yaml list" where
  "install_wheel_cmd py = [py, YStr ''-m'', YStr ''pip'', YStr ''install'', YStr ''wheel'']"

definition sdist_cmd :: "yaml \<Rightarrow> yaml list" where
  "sdist_cmd py = [py, YStr ''setup.py'', YStr ''sdist'']"

definition bdist_wheel_cmd :: "yaml \<Rightarrow> yaml list" where
  "bdist_wheel_cmd py = [py, YStr ''setup.py'', YStr ''bdist_wheel'']"

text \<open>The \<^verbatim>\<open>try\<close> block around \<^verbatim>\<open>shutil.rmtree("%s.egg-info" % config['name'])\<close>:
  \<^verbatim>\<open>except Exception: pass\<close> swallows a failing lookup of \<^verbatim>\<open>config['name']\<close>
  (then nothing is deleted) as well as a failing deletion.\<close>

definition cleanup_egg_info :: "world \<Rightarrow> yaml \<Rightarrow> event list \<Rightarrow> event list" where
  "cleanup_egg_info w c tr =
     (case subscript c ''name'' of
        Inl e \<Rightarrow> tr
      | Inr pkg \<Rightarrow>
          (let p = Fmt ''%s.egg-info'' [pkg] in tr @ [Rmtree p (rmtree_fails w tr p)]))"

text \<open>From \<^verbatim>\<open>print('* Preparing environment for %s now.')\<close> to
  \<^verbatim>\<open>print('* Building for %s now.')\<close>: the install-helper step.\<close>

definition install_helper :: "world \<Rightarrow> yaml \<Rightarrow> event list \<Rightarrow> event list result" where
  "install_helper w py tr =
     (let tr2 = tr @ [Print (Lit banner),
                      Print (Fmt ''* Preparing environment for %s now.'' [py])]
      in case run_checked w tr2 (install_wheel_cmd py) [] ''PIP_FAILURE'' of
           Inl h \<Rightarrow> Inl h
         | Inr tr3 \<Rightarrow>
             Inr (tr3 @ [Print (Lit banner), Print (Fmt ''* Building for %s now.'' [py])]))"

definition build_sdist :: "world \<Rightarrow> yaml \<Rightarrow> yaml \<Rightarrow> event list \<Rightarrow> event list result" where
  "build_sdist w target py tr =
     (case dict_get target ''sdist'' (YBool False) of
        Inl e \<Rightarrow> Inl (Uncaught e, tr)
      | Inr flag \<Rightarrow>
          if truthy flag
          then run_checked w (tr @ [Print (Lit ''* Doing a source distribution!'')])
                 (sdist_cmd py) [Fmt ''Failed to build source dist for %s'' [py]]
                 ''BUILD_FAILED_SOURCE_DIST''
          else Inr tr)"

definition build_wheel :: "world \<Rightarrow> yaml \<Rightarrow> yaml \<Rightarrow> event list \<Rightarrow> event list result" where
  "build_wheel w target py tr =
     (case dict_get target ''wheel'' (YBool False) of
        Inl e \<Rightarrow> Inl (Uncaught e, tr)
      | Inr flag \<Rightarrow>
          if truthy flag
          then run_checked w (tr @ [Print (Lit ''* Doing a wheel!'')])
                 (bdist_wheel_cmd py) [Fmt ''Failed to build wheel for %s'' [py]]
                 ''BUILD_FAILED_WHEEL''
          else Inr tr)"

text \<open>The loop body after the clean-up, from \<^verbatim>\<open>py_exe = target['python']\<close> on.\<close>

definition build_steps :: "world \<Rightarrow> state \<Rightarrow> yaml \<Rightarrow> event list \<Rightarrow> state result" where
  "build_steps w st target tr =
     (case subscript target ''python'' of
        Inl e \<Rightarrow> Inl (Uncaught e, tr)
      | Inr py \<Rightarrow>
          (case install_helper w py tr of
             Inl h \<Rightarrow> Inl h
           | Inr tr4 \<Rightarrow>
               (case build_sdist w target py tr4 of
                  Inl h \<Rightarrow> Inl h
                | Inr tr5 \<Rightarrow>
                    (case build_wheel w target py tr5 of
                       Inl h \<Rightarrow> Inl h
                     | Inr tr6 \<Rightarrow> Inr (st\<lparr>py_exe := Some py, trace := tr6\<rparr>)))))"

text \<open>One iteration of \<^verbatim>\<open>for target in ...\<close>.\<close>

definition build_target :: "world \<Rightarrow> state \<Rightarrow> yaml \<Rightarrow> state result" where
  "build_target w st target =
     build_steps w st target
       (cleanup_egg_info w (config st)
          (trace st @ [Print (Lit banner), Print (Lit ''* Cleaning up egg-info.'')]))"

fun build_targets :: "world \<Rightarrow> state \<Rightarrow> yaml list \<Rightarrow> state result" where
  "build_targets w st [] = Inr st"
| "build_targets w st (target # targets) =
     (case build_target w st target of
        Inl h \<Rightarrow> Inl h
      | Inr st' \<Rightarrow> build_targets w st' targets)"

text \<open>\<^verbatim>\<open>for target in config['targets'].get(args.target, ()):\<close> The default, the
  empty tuple, is the empty sequence here.\<close>

definition target_builder :: "world \<Rightarrow> string \<Rightarrow> state \<Rightarrow> state result" where
  "target_builder w target st =
     (case subscript (config st) ''targets'' of
        Inl e \<Rightarrow> Inl (Uncaught e, trace st)
      | Inr groups \<Rightarrow>
          (case dict_get groups target (YSeq []) of
             Inl e \<Rightarrow> Inl (Uncaught e, trace st)
           | Inr grp \<Rightarrow>
               (case iterate grp of
                  Inl e \<Rightarrow> Inl (Uncaught e, trace st)
                | Inr targets \<Rightarrow> build_targets w st targets)))"

subsection \<open>Publisher\<close>

text \<open>\<^verbatim>\<open>os.environ.get(NAME, None)\<close> as a Python value.\<close>

fun env_value :: "string option \<Rightarrow> yaml" where
  "env_value None = YNull"
| "env_value (Some s) = YStr s"

definition install_twine_cmd :: "yaml \<Rightarrow> yaml list" where
  "install_twine_cmd py = [py, YStr ''-m'', YStr ''pip'', YStr ''install'', YStr ''twine'']"

definition upload_cmd :: "yaml \<Rightarrow> string \<Rightarrow> yaml \<Rightarrow> yaml list" where
  "upload_cmd py twine_py pypi_url =
     [py, YStr twine_py, YStr ''upload'', YStr ''--non-interactive'',
      YStr ''--repository-url'', pypi_url, YStr ''dist/*'']"

text \<open>The body of the first branch of the \<^verbatim>\<open>if\<close>. It reads \<^verbatim>\<open>py_exe\<close>, which is
  bound only by the loop over the targets; reading an unbound name raises
  \<^verbatim>\<open>NameError\<close>. The two names \<^verbatim>\<open>ExitCodes.ERROR_MISSING_DEPENDENCIES\<close> and
  \<^verbatim>\<open>ExitCodes.PYPI_UPLOAD_FAILURE\<close> are written as in the source.\<close>

definition publish :: "world \<Rightarrow> state \<Rightarrow> yaml \<Rightarrow> string option \<Rightarrow> state result" where
  "publish w st pypi_config pypi_username =
     (let tr1 = trace st @ [Print (Lit banner), Print (Lit ''* Preparing to upload to twine.''),
                            Print (Lit ''* Ensuring that twine is installed.'')]
      in case dict_get pypi_config ''target_url'' (YStr []) of
           Inl e \<Rightarrow> Inl (Uncaught e, tr1)
         | Inr pypi_url \<Rightarrow>
             if \<not> truthy pypi_url
             then Inl (exit_with ''PYPI_MISSING_CONFIG_VARS'',
                       tr1 @ [Print (Lit ''* ERROR: Missing pypi->target_url value in build.yml.'')])
             else
               (case py_exe st of
                  None \<Rightarrow> Inl (Uncaught NameError, tr1)
                | Some py \<Rightarrow>
                    (case run_checked w tr1 (install_twine_cmd py)
                            [Lit ''* ERROR: Failed to ensure that twine is installed.'']
                            ''PIP_FAILURE'' of
                       Inl h \<Rightarrow> Inl h
                     | Inr tr2 \<Rightarrow>
                         (let found = import_twine w tr2; tr3 = tr2 @ [ImportTwine found]
                          in case found of
                               None \<Rightarrow>
                                 Inl (exit_with ''ERROR_MISSING_DEPENDENCIES'',
                                      tr3 @ [Print (Lit ''* ERROR: Couldn't import twine.'')])
                             | Some twine_py \<Rightarrow>
                                 (let py2 = YStr (sys_executable w);
                                      tr4 = tr3 @
                                        [Print (Lit banner),
                                         Print (Fmt ''* Uploading to %s with username %s.''
                                                  [pypi_url, env_value pypi_username]),
                                         Print (Fmt ''* Using twine located at %s.'' [YStr twine_py])]
                                  in case run_checked w tr4 (upload_cmd py2 twine_py pypi_url) []
                                            ''PYPI_UPLOAD_FAILURE'' of
                                       Inl h \<Rightarrow> Inl h
                                     | Inr tr5 \<Rightarrow> Inr (st\<lparr>py_exe := Some py2, trace := tr5\<rparr>))))))"

text \<open>The \<^verbatim>\<open>if\<close> / \<^verbatim>\<open>elif\<close> / \<^verbatim>\<open>else\<close> on the credentials, the flag and the tag.\<close>

definition publisher :: "world \<Rightarrow> state \<Rightarrow> state result" where
  "publisher w st =
     (case dict_get (config st) ''pypi'' (YMap []) of
        Inl e \<Rightarrow> Inl (Uncaught e, trace st)
      | Inr pypi_config \<Rightarrow>
          (case dict_get pypi_config ''only_upload_tags'' (YBool True) of
             Inl e \<Rightarrow> Inl (Uncaught e, trace st)
           | Inr only_tags \<Rightarrow>
               (let is_tag = ((case environ w ''APPVEYOR_REPO_TAG'' of
                                 None \<Rightarrow> ''false'' | Some v \<Rightarrow> v) = ''true'');
                    pypi_username = environ w ''TWINE_USERNAME'';
                    pypi_password = environ w ''TWINE_PASSWORD''
                in if pypi_username \<noteq> None \<and> pypi_password \<noteq> None \<and>
                      ((truthy only_tags \<and> is_tag) \<or> \<not> truthy only_tags)
                   then publish w st pypi_config pypi_username
                   else if (pypi_username = None \<or> pypi_password = None) \<and>
                           pypi_username \<noteq> pypi_password
                   then Inl (exit_with ''PYPI_MISSING_ENVIRONMENT_VARS'',
                             trace st @
                               [Print (Lit ''* ERROR: Only a username or password supplied for pypi'')])
                   else Inr (st\<lparr>trace := trace st @
                               [Print (Lit banner),
                                Print (Lit ''* INFO: Not uploading to pypi.'')]\<rparr>))))"

subsection \<open>The whole script\<close>

text \<open>The last statement, \<^verbatim>\<open>exit(ExitCodes.SUCCESS)\<close>, reached when nothing ended the
  run before.\<close>

fun finish :: "state result \<Rightarrow> outcome \<times> event list" where
  "finish (Inl h) = h"
| "finish (Inr st) = (exit_with ''SUCCESS'', trace st)"

definition build_and_publish :: "world \<Rightarrow> string \<Rightarrow> state \<Rightarrow> outcome \<times> event list" where
  "build_and_publish w target st =
     (case target_builder w target st of
        Inl h \<Rightarrow> h
      | Inr st2 \<Rightarrow> finish (publisher w st2))"

definition wheelman :: "world \<Rightarrow> string \<Rightarrow> string \<Rightarrow> outcome \<times> event list" where
  "wheelman w target config_file =
     (case config_loader w config_file of
        Inl h \<Rightarrow> h
      | Inr st0 \<Rightarrow>
          (case env_prep w st0 of
             Inl h \<Rightarrow> h
           | Inr st1 \<Rightarrow> build_and_publish w target st1))"

subsection \<open>Reading results\<close>

fun events_of :: "state result \<Rightarrow> event list" where
  "events_of (Inl (oc, tr)) = tr"
| "events_of (Inr st) = trace st"

text \<open>The commands of the subprocess calls among the events, in order.\<close>

fun run_cmds :: "event list \<Rightarrow> yaml list list" where
  "run_cmds [] = []"
| "run_cmds (Run cmd r # es) = cmd # run_cmds es"
| "run_cmds (Print m # es) = run_cmds es"
| "run_cmds (LoadConfig f # es) = run_cmds es"
| "run_cmds (Rmtree p b # es) = run_cmds es"
| "run_cmds (Copyfile s d b # es) = run_cmds es"
| "run_cmds (ImportTwine f # es) = run_cmds es"


subsection \<open>Example inputs\<close>

text \<open>A configuration with two groups of targets, and a world that answers every
  subprocess call from the command alone.\<close>

definition target_py38 :: yaml where
  "target_py38 = YMap [(YStr ''python'', YStr ''py38''), (YStr ''wheel'', YBool True)]"

definition target_py39 :: yaml where
  "target_py39 = YMap [(YStr ''python'', YStr ''py39''), (YStr ''sdist'', YBool True),
                       (YStr ''wheel'', YBool True)]"

definition target_bare :: yaml where
  "target_bare = YMap [(YStr ''python'', YStr ''py39'')]"

definition example_groups :: "(yaml \<times> yaml) list" where
  "example_groups = [(YStr ''main'', YSeq [target_py38, target_py39]),
                     (YStr ''bare'', YSeq [target_bare])]"

definition example_entries :: "(yaml \<times> yaml) list \<Rightarrow> (yaml \<times> yaml) list" where
  "example_entries pypi =
     [(YStr ''name'', YStr ''pkg''),
      (YStr ''include_files'', YSeq []),
      (YStr ''targets'', YMap example_groups),
      (YStr ''pypi'', YMap pypi)]"

definition example_state :: "(yaml \<times> yaml) list \<Rightarrow> yaml option \<Rightarrow> state" where
  "example_state pypi py = \<lparr>config = YMap (example_entries pypi), py_exe = py, trace = []\<rparr>"

definition example_world ::
  "load_result \<Rightarrow> bool \<Rightarrow> (yaml list \<Rightarrow> run_result) \<Rightarrow> (string \<times> string) list \<Rightarrow> world" where
  "example_world loaded deletion_fails answer env =
     \<lparr>load_config = (\<lambda>f. loaded),
      rmtree_fails = (\<lambda>tr p. deletion_fails),
      copyfile_fails = (\<lambda>tr s d. False),
      run = (\<lambda>tr cmd. answer cmd),
      import_twine = (\<lambda>tr. Some ''twine/__main__.py''),
      environ = map_of env,
      sys_executable = ''python''\<rparr>"

definition all_succeed :: "yaml list \<Rightarrow> run_result" where
  "all_succeed cmd = ReturnCode 0"

definition fails_on :: "yaml list \<Rightarrow> yaml list \<Rightarrow> run_result" where
  "fails_on bad cmd = (if cmd = bad then ReturnCode 1 else ReturnCode 0)"

definition credentials :: "(string \<times> string) list" where
  "credentials = [(''TWINE_USERNAME'', ''u''), (''TWINE_PASSWORD'', ''p'')]"

definition upload_url :: string where
  "upload_url = ''https://upload.example.org/legacy/''"

definition state_after_bare :: "(yaml \<times> yaml) list \<Rightarrow> state" where
  "state_after_bare pypi =
     \<lparr>config = YMap (example_entries pypi), py_exe = Some (YStr ''py39''),
      trace = [Print (Lit banner), Print (Lit ''* Cleaning up egg-info.''),
               Rmtree (Fmt ''%s.egg-info'' [YStr ''pkg'']) False,
               Print (Lit banner),
               Print (Fmt ''* Preparing environment for %s now.'' [YStr ''py39'']),
               Run (install_wheel_cmd (YStr ''py39'')) (ReturnCode 0),
               Print (Lit banner), Print (Fmt ''* Building for %s now.'' [YStr ''py39''])]\<rparr>"


section \<open>Properties\<close>

subsection \<open>Auxiliary facts\<close>

lemma exit_with_simps:
  "exit_with ''SUCCESS'' = Exit 0"
  "exit_with ''CONFIG_FILE_NOT_FOUND'' = Exit 11"
  "exit_with ''CONFIG_YAML_PARSING_ERROR'' = Exit 12"
  "exit_with ''BUILD_FAILED_WHEEL'' = Exit 20"
  "exit_with ''BUILD_FAILED_SOURCE_DIST'' = Exit 21"
  "exit_with ''PIP_FAILURE'' = Exit 30"
  "exit_with ''PYPI_MISSING_ENVIRONMENT_VARS'' = Exit 51"
  "exit_with ''PYPI_MISSING_CONFIG_VARS'' = Exit 52"
  "exit_with ''PYPI_UPLOAD_FAILURE'' = Uncaught AttributeError"
  "exit_with ''ERROR_MISSING_DEPENDENCIES'' = Uncaught AttributeError"
  by (simp_all add: exit_with_def ExitCodes_def)

lemma run_cmds_append: "run_cmds (a @ b) = run_cmds a @ run_cmds b"
  by (induction a rule: run_cmds.induct) simp_all

lemma run_cmds_cleanup: "run_cmds (cleanup_egg_info w c tr) = run_cmds tr"
  by (simp add: cleanup_egg_info_def Let_def run_cmds_append split: sum.splits)

lemma build_targets_append:
  "build_targets w st before = Inr st1 \<Longrightarrow>
   build_targets w st (before @ rest) = build_targets w st1 rest"
  by (induction before arbitrary: st) (auto split: sum.splits)






lemma publish_announces:
  "prefix (trace st @ [Print (Lit banner), Print (Lit ''* Preparing to upload to twine.''),
                       Print (Lit ''* Ensuring that twine is installed.'')])
     (events_of (publish w st pypi_config u))"
  by (auto simp: publish_def run_checked_def Let_def
      split: option.splits run_result.splits sum.splits)

lemma publish_uploads:
  "(let tr1 = trace st @
             [Print (Lit banner), Print (Lit ''* Preparing to upload to twine.''),
              Print (Lit ''* Ensuring that twine is installed.'')];
           tr2 = tr1 @
             [Run (install_twine_cmd py) (ReturnCode 0), ImportTwine (Some twine_py),
              Print (Lit banner),
              Print (Fmt ''* Uploading to %s with username %s.'' [pypi_url, YStr u]),
              Print (Fmt ''* Using twine located at %s.'' [YStr twine_py])];
           cmd = upload_cmd (YStr (sys_executable w)) twine_py pypi_url
       in dict_get pypi_config ''target_url'' (YStr []) = Inr pypi_url \<and> truthy pypi_url \<and>
          py_exe st = Some py \<and>
          run w tr1 (install_twine_cmd py) = ReturnCode 0 \<and>
          import_twine w (tr1 @ [Run (install_twine_cmd py) (ReturnCode 0)]) = Some twine_py \<longrightarrow>
            events_of (publish w st pypi_config (Some u)) = tr2 @ [Run cmd (run w tr2 cmd)]
            \<and> (run w tr2 cmd = ReturnCode 0 \<longrightarrow>
                 publish w st pypi_config (Some u) =
                   Inr (st\<lparr>py_exe := Some (YStr (sys_executable w)),
                           trace := tr2 @ [Run cmd (ReturnCode 0)]\<rparr>)))"
  by (auto simp: publish_def run_checked_def Let_def split: run_result.splits)

lemmas example_defs =
  example_world_def example_state_def example_entries_def example_groups_def
  target_py38_def target_py39_def target_bare_def all_succeed_def fails_on_def credentials_def
  upload_url_def state_after_bare_def

lemmas step_defs =
  build_target_def build_steps_def cleanup_egg_info_def install_helper_def build_sdist_def
  build_wheel_def run_checked_def install_wheel_cmd_def sdist_cmd_def bdist_wheel_cmd_def
  install_twine_cmd_def upload_cmd_def Let_def

lemmas script_defs =
  wheelman_def config_loader_def env_prep_def build_and_publish_def target_builder_def
  publisher_def publish_def


subsection \<open>Publisher: the decision table\<close>

text \<open>
  Claim C1. Let the configuration's \<^verbatim>\<open>pypi\<close> section and its flag
  \<^verbatim>\<open>only_upload_tags\<close> be readable (the section defaults to the empty mapping, the
  flag to true). With username and password both set, the publisher publishes when the
  flag is false or the tag variable is the string \<^verbatim>\<open>true\<close>: it runs the body of the
  first branch, which always starts with the two announcements, and which, once an
  endpoint is configured, \<^verbatim>\<open>py_exe\<close> is bound, \<^verbatim>\<open>pip install twine\<close> returned 0 and
  twine was imported, runs the upload command for that endpoint as its last step and ends
  without a failure when the upload returns 0. With both set, the flag true and no tag, it
  skips with the info message. With exactly one of the two set it ends the run with exit
  code 51, whatever the flag and the tag are. With neither set it skips with the info
  message.
\<close>

theorem publisher_decision_table:
  assumes "dict_get (config st) ''pypi'' (YMap []) = Inr pypi_config"
    and "dict_get pypi_config ''only_upload_tags'' (YBool True) = Inr only_tags"
  shows "(environ w ''TWINE_USERNAME'' = Some u \<and> environ w ''TWINE_PASSWORD'' = Some p \<and>
          (\<not> truthy only_tags \<or> environ w ''APPVEYOR_REPO_TAG'' = Some ''true'') \<longrightarrow>
            publish w st pypi_config (Some u) = publisher w st
            \<and> prefix (trace st @ [Print (Lit banner), Print (Lit ''* Preparing to upload to twine.''),
                                    Print (Lit ''* Ensuring that twine is installed.'')])
                  (events_of (publisher w st))
            \<and> (let tr1 = trace st @
                        [Print (Lit banner), Print (Lit ''* Preparing to upload to twine.''),
                         Print (Lit ''* Ensuring that twine is installed.'')];
                      tr2 = tr1 @
                        [Run (install_twine_cmd py) (ReturnCode 0), ImportTwine (Some twine_py),
                         Print (Lit banner),
                         Print (Fmt ''* Uploading to %s with username %s.'' [pypi_url, YStr u]),
                         Print (Fmt ''* Using twine located at %s.'' [YStr twine_py])];
                      cmd = upload_cmd (YStr (sys_executable w)) twine_py pypi_url
                  in dict_get pypi_config ''target_url'' (YStr []) = Inr pypi_url \<and> truthy pypi_url \<and>
                     py_exe st = Some py \<and>
                     run w tr1 (install_twine_cmd py) = ReturnCode 0 \<and>
                     import_twine w (tr1 @ [Run (install_twine_cmd py) (ReturnCode 0)]) = Some twine_py \<longrightarrow>
                       events_of (publisher w st) = tr2 @ [Run cmd (run w tr2 cmd)]
                       \<and> (run w tr2 cmd = ReturnCode 0 \<longrightarrow>
                            publisher w st =
                              Inr (st\<lparr>py_exe := Some (YStr (sys_executable w)),
                                      trace := tr2 @ [Run cmd (ReturnCode 0)]\<rparr>))))
       \<and> (environ w ''TWINE_USERNAME'' = Some u \<and> environ w ''TWINE_PASSWORD'' = Some p \<and>
          truthy only_tags \<and> environ w ''APPVEYOR_REPO_TAG'' \<noteq> Some ''true'' \<longrightarrow>
            publisher w st =
              Inr (st\<lparr>trace := trace st @ [Print (Lit banner),
                                           Print (Lit ''* INFO: Not uploading to pypi.'')]\<rparr>))
       \<and> ((environ w ''TWINE_USERNAME'' = None) \<noteq> (environ w ''TWINE_PASSWORD'' = None) \<longrightarrow>
            publisher w st =
              Inl (Exit 51, trace st @
                     [Print (Lit ''* ERROR: Only a username or password supplied for pypi'')]))
       \<and> (environ w ''TWINE_USERNAME'' = None \<and> environ w ''TWINE_PASSWORD'' = None \<longrightarrow>
            publisher w st =
              Inr (st\<lparr>trace := trace st @ [Print (Lit banner),
                                           Print (Lit ''* INFO: Not uploading to pypi.'')]\<rparr>))"
proof -
  have publish_row: "environ w ''TWINE_USERNAME'' = Some u \<and> environ w ''TWINE_PASSWORD'' = Some p \<and>
          (\<not> truthy only_tags \<or> environ w ''APPVEYOR_REPO_TAG'' = Some ''true'') \<longrightarrow>
            publish w st pypi_config (Some u) = publisher w st
            \<and> prefix (trace st @ [Print (Lit banner), Print (Lit ''* Preparing to upload to twine.''),
                                    Print (Lit ''* Ensuring that twine is installed.'')])
                  (events_of (publisher w st))
            \<and> (let tr1 = trace st @
                        [Print (Lit banner), Print (Lit ''* Preparing to upload to twine.''),
                         Print (Lit ''* Ensuring that twine is installed.'')];
                      tr2 = tr1 @
                        [Run (install_twine_cmd py) (ReturnCode 0), ImportTwine (Some twine_py),
                         Print (Lit banner),
                         Print (Fmt ''* Uploading to %s with username %s.'' [pypi_url, YStr u]),
                         Print (Fmt ''* Using twine located at %s.'' [YStr twine_py])];
                      cmd = upload_cmd (YStr (sys_executable w)) twine_py pypi_url
                  in dict_get pypi_config ''target_url'' (YStr []) = Inr pypi_url \<and> truthy pypi_url \<and>
                     py_exe st = Some py \<and>
                     run w tr1 (install_twine_cmd py) = ReturnCode 0 \<and>
                     import_twine w (tr1 @ [Run (install_twine_cmd py) (ReturnCode 0)]) = Some twine_py \<longrightarrow>
                       events_of (publisher w st) = tr2 @ [Run cmd (run w tr2 cmd)]
                       \<and> (run w tr2 cmd = ReturnCode 0 \<longrightarrow>
                            publisher w st =
                              Inr (st\<lparr>py_exe := Some (YStr (sys_executable w)),
                                      trace := tr2 @ [Run cmd (ReturnCode 0)]\<rparr>)))"
  proof (intro impI, elim conjE)
    assume "environ w ''TWINE_USERNAME'' = Some u" and "environ w ''TWINE_PASSWORD'' = Some p"
      and "\<not> truthy only_tags \<or> environ w ''APPVEYOR_REPO_TAG'' = Some ''true''"
    with assms have branch: "publisher w st = publish w st pypi_config (Some u)"
      by (auto simp: publisher_def Let_def)
    have "publish w st pypi_config (Some u) = publish w st pypi_config (Some u)
            \<and> prefix (trace st @ [Print (Lit banner), Print (Lit ''* Preparing to upload to twine.''),
                                    Print (Lit ''* Ensuring that twine is installed.'')])
                  (events_of (publish w st pypi_config (Some u)))
            \<and> (let tr1 = trace st @
                        [Print (Lit banner), Print (Lit ''* Preparing to upload to twine.''),
                         Print (Lit ''* Ensuring that twine is installed.'')];
                      tr2 = tr1 @
                        [Run (install_twine_cmd py) (ReturnCode 0), ImportTwine (Some twine_py),
                         Print (Lit banner),
                         Print (Fmt ''* Uploading to %s with username %s.'' [pypi_url, YStr u]),
                         Print (Fmt ''* Using twine located at %s.'' [YStr twine_py])];
                      cmd = upload_cmd (YStr (sys_executable w)) twine_py pypi_url
                  in dict_get pypi_config ''target_url'' (YStr []) = Inr pypi_url \<and> truthy pypi_url \<and>
                     py_exe st = Some py \<and>
                     run w tr1 (install_twine_cmd py) = ReturnCode 0 \<and>
                     import_twine w (tr1 @ [Run (install_twine_cmd py) (ReturnCode 0)]) = Some twine_py \<longrightarrow>
                       events_of (publish w st pypi_config (Some u)) = tr2 @ [Run cmd (run w tr2 cmd)]
                       \<and> (run w tr2 cmd = ReturnCode 0 \<longrightarrow>
                            publish w st pypi_config (Some u) =
                              Inr (st\<lparr>py_exe := Some (YStr (sys_executable w)),
                                      trace := tr2 @ [Run cmd (ReturnCode 0)]\<rparr>)))"
      by (intro conjI refl publish_announces publish_uploads)
    then show "publish w st pypi_config (Some u) = publisher w st
            \<and> prefix (trace st @ [Print (Lit banner), Print (Lit ''* Preparing to upload to twine.''),
                                    Print (Lit ''* Ensuring that twine is installed.'')])
                  (events_of (publisher w st))
            \<and> (let tr1 = trace st @
                        [Print (Lit banner), Print (Lit ''* Preparing to upload to twine.''),
                         Print (Lit ''* Ensuring that twine is installed.'')];
                      tr2 = tr1 @
                        [Run (install_twine_cmd py) (ReturnCode 0), ImportTwine (Some twine_py),
                         Print (Lit banner),
                         Print (Fmt ''* Uploading to %s with username %s.'' [pypi_url, YStr u]),
                         Print (Fmt ''* Using twine located at %s.'' [YStr twine_py])];
                      cmd = upload_cmd (YStr (sys_executable w)) twine_py pypi_url
                  in dict_get pypi_config ''target_url'' (YStr []) = Inr pypi_url \<and> truthy pypi_url \<and>
                     py_exe st = Some py \<and>
                     run w tr1 (install_twine_cmd py) = ReturnCode 0 \<and>
                     import_twine w (tr1 @ [Run (install_twine_cmd py) (ReturnCode 0)]) = Some twine_py \<longrightarrow>
                       events_of (publisher w st) = tr2 @ [Run cmd (run w tr2 cmd)]
                       \<and> (run w tr2 cmd = ReturnCode 0 \<longrightarrow>
                            publisher w st =
                              Inr (st\<lparr>py_exe := Some (YStr (sys_executable w)),
                                      trace := tr2 @ [Run cmd (ReturnCode 0)]\<rparr>)))"
      unfolding branch .
  qed
  have other_rows: "(environ w ''TWINE_USERNAME'' = Some u \<and> environ w ''TWINE_PASSWORD'' = Some p \<and>
          truthy only_tags \<and> environ w ''APPVEYOR_REPO_TAG'' \<noteq> Some ''true'' \<longrightarrow>
            publisher w st =
              Inr (st\<lparr>trace := trace st @ [Print (Lit banner),
                                           Print (Lit ''* INFO: Not uploading to pypi.'')]\<rparr>))
       \<and> ((environ w ''TWINE_USERNAME'' = None) \<noteq> (environ w ''TWINE_PASSWORD'' = None) \<longrightarrow>
            publisher w st =
              Inl (Exit 51, trace st @
                     [Print (Lit ''* ERROR: Only a username or password supplied for pypi'')]))
       \<and> (environ w ''TWINE_USERNAME'' = None \<and> environ w ''TWINE_PASSWORD'' = None \<longrightarrow>
            publisher w st =
              Inr (st\<lparr>trace := trace st @ [Print (Lit banner),
                                           Print (Lit ''* INFO: Not uploading to pypi.'')]\<rparr>))"
    using assms by (auto simp: publisher_def Let_def exit_with_simps split: option.splits)
  from publish_row other_rows show ?thesis by (rule conjI)
qed

theorem publisher_decision_table_witness:
  "publisher (example_world OpenFailed False all_succeed [(''TWINE_USERNAME'', ''u'')])
     (example_state [] None)
     = Inl (Exit 51, [Print (Lit ''* ERROR: Only a username or password supplied for pypi'')])
   \<and> publisher (example_world OpenFailed False all_succeed []) (example_state [] None)
     = Inr ((example_state [] None)
              \<lparr>trace := [Print (Lit banner), Print (Lit ''* INFO: Not uploading to pypi.'')]\<rparr>)
   \<and> publisher (example_world OpenFailed False all_succeed credentials)
       (example_state [(YStr ''only_upload_tags'', YBool True)] None)
     = Inr ((example_state [(YStr ''only_upload_tags'', YBool True)] None)
              \<lparr>trace := [Print (Lit banner), Print (Lit ''* INFO: Not uploading to pypi.'')]\<rparr>)
   \<and> publisher (example_world OpenFailed False all_succeed credentials)
       (state_after_bare [(YStr ''only_upload_tags'', YBool False),
                          (YStr ''target_url'', YStr upload_url)])
     = Inr ((state_after_bare [(YStr ''only_upload_tags'', YBool False),
                               (YStr ''target_url'', YStr upload_url)])
              \<lparr>py_exe := Some (YStr ''python''),
               trace := trace (state_after_bare [(YStr ''only_upload_tags'', YBool False),
                                                 (YStr ''target_url'', YStr upload_url)]) @
                 [Print (Lit banner), Print (Lit ''* Preparing to upload to twine.''),
                  Print (Lit ''* Ensuring that twine is installed.''),
                  Run (install_twine_cmd (YStr ''py39'')) (ReturnCode 0),
                  ImportTwine (Some ''twine/__main__.py''),
                  Print (Lit banner),
                  Print (Fmt ''* Uploading to %s with username %s.'' [YStr upload_url, YStr ''u'']),
                  Print (Fmt ''* Using twine located at %s.'' [YStr ''twine/__main__.py'']),
                  Run (upload_cmd (YStr ''python'') ''twine/__main__.py'' (YStr upload_url))
                      (ReturnCode 0)]\<rparr>)
   \<and> publisher (example_world OpenFailed False all_succeed
                   ((''APPVEYOR_REPO_TAG'', ''true'') # credentials))
       (state_after_bare [(YStr ''only_upload_tags'', YBool True),
                          (YStr ''target_url'', YStr upload_url)])
     = Inr ((state_after_bare [(YStr ''only_upload_tags'', YBool True),
                               (YStr ''target_url'', YStr upload_url)])
              \<lparr>py_exe := Some (YStr ''python''),
               trace := trace (state_after_bare [(YStr ''only_upload_tags'', YBool True),
                                                 (YStr ''target_url'', YStr upload_url)]) @
                 [Print (Lit banner), Print (Lit ''* Preparing to upload to twine.''),
                  Print (Lit ''* Ensuring that twine is installed.''),
                  Run (install_twine_cmd (YStr ''py39'')) (ReturnCode 0),
                  ImportTwine (Some ''twine/__main__.py''),
                  Print (Lit banner),
                  Print (Fmt ''* Uploading to %s with username %s.'' [YStr upload_url, YStr ''u'']),
                  Print (Fmt ''* Using twine located at %s.'' [YStr ''twine/__main__.py'']),
                  Run (upload_cmd (YStr ''python'') ''twine/__main__.py'' (YStr upload_url))
                      (ReturnCode 0)]\<rparr>)"
  using
    publisher_decision_table [where st = "example_state [] None" and pypi_config = "YMap []"
      and only_tags = "YBool True" and u = "''u''" and p = "''p''"
      and w = "example_world OpenFailed False all_succeed [(''TWINE_USERNAME'', ''u'')]"]
    publisher_decision_table [where st = "example_state [] None" and pypi_config = "YMap []"
      and only_tags = "YBool True" and u = "''u''" and p = "''p''"
      and w = "example_world OpenFailed False all_succeed []"]
    publisher_decision_table [where st = "example_state [(YStr ''only_upload_tags'', YBool True)] None"
      and pypi_config = "YMap [(YStr ''only_upload_tags'', YBool True)]"
      and only_tags = "YBool True" and u = "''u''" and p = "''p''"
      and w = "example_world OpenFailed False all_succeed credentials"]
    publisher_decision_table [where st = "state_after_bare [(YStr ''only_upload_tags'', YBool False),
                                                           (YStr ''target_url'', YStr upload_url)]"
      and pypi_config = "YMap [(YStr ''only_upload_tags'', YBool False),
                               (YStr ''target_url'', YStr upload_url)]"
      and only_tags = "YBool False" and u = "''u''" and p = "''p''"
      and pypi_url = "YStr upload_url" and py = "YStr ''py39''" and twine_py = "''twine/__main__.py''"
      and w = "example_world OpenFailed False all_succeed credentials"]
    publisher_decision_table [where st = "state_after_bare [(YStr ''only_upload_tags'', YBool True),
                                                           (YStr ''target_url'', YStr upload_url)]"
      and pypi_config = "YMap [(YStr ''only_upload_tags'', YBool True),
                               (YStr ''target_url'', YStr upload_url)]"
      and only_tags = "YBool True" and u = "''u''" and p = "''p''"
      and pypi_url = "YStr upload_url" and py = "YStr ''py39''" and twine_py = "''twine/__main__.py''"
      and w = "example_world OpenFailed False all_succeed ((''APPVEYOR_REPO_TAG'', ''true'') # credentials)"]
  by (simp add: example_defs Let_def)


subsection \<open>Target Builder: the first failure ends the run\<close>

text \<open>
  Claim C2. Let the targets in \<open>before\<close> have been built without a failure, and let the
  install-helper step of the next target succeed. If that target asks for a source
  distribution and the sdist command returns a non-zero code, the loop over
  \<open>before @ target # later\<close> ends the run with exit code 21; if its sdist step passes,
  it asks for a wheel and the wheel command returns a non-zero code, the run ends with
  exit code 20. In both cases the events end with the failing command and its message,
  whatever \<open>later\<close> is: no step of a later target is executed, in particular not its
  \<^verbatim>\<open>pip install wheel\<close>.
\<close>

theorem build_failure_halts:
  assumes "build_targets w st before = Inr st1"
    and "subscript target ''python'' = Inr py"
    and "install_helper w py
           (cleanup_egg_info w (config st1)
              (trace st1 @ [Print (Lit banner), Print (Lit ''* Cleaning up egg-info.'')])) = Inr tr4"
  shows "(dict_get target ''sdist'' (YBool False) = Inr flag \<and> truthy flag \<and>
          run w (tr4 @ [Print (Lit ''* Doing a source distribution!'')]) (sdist_cmd py) = ReturnCode rc \<and>
          rc \<noteq> 0 \<longrightarrow>
            build_targets w st (before @ target # later) =
              Inl (Exit 21, tr4 @ [Print (Lit ''* Doing a source distribution!''),
                                   Run (sdist_cmd py) (ReturnCode rc),
                                   Print (Fmt ''Failed to build source dist for %s'' [py])]))
       \<and> (build_sdist w target py tr4 = Inr tr5 \<and>
          dict_get target ''wheel'' (YBool False) = Inr flag \<and> truthy flag \<and>
          run w (tr5 @ [Print (Lit ''* Doing a wheel!'')]) (bdist_wheel_cmd py) = ReturnCode rc \<and>
          rc \<noteq> 0 \<longrightarrow>
            build_targets w st (before @ target # later) =
              Inl (Exit 20, tr5 @ [Print (Lit ''* Doing a wheel!''),
                                   Run (bdist_wheel_cmd py) (ReturnCode rc),
                                   Print (Fmt ''Failed to build wheel for %s'' [py])]))"
  using assms
  by (simp add: build_targets_append build_target_def build_steps_def build_sdist_def
      build_wheel_def run_checked_def Let_def exit_with_simps)

theorem build_failure_halts_witness:
  "build_targets (example_world OpenFailed False (fails_on (bdist_wheel_cmd (YStr ''py38''))) [])
     (example_state [] None) [target_py38, target_py39]
     = Inl (Exit 20,
            [Print (Lit banner), Print (Lit ''* Cleaning up egg-info.''),
             Rmtree (Fmt ''%s.egg-info'' [YStr ''pkg'']) False,
             Print (Lit banner),
             Print (Fmt ''* Preparing environment for %s now.'' [YStr ''py38'']),
             Run (install_wheel_cmd (YStr ''py38'')) (ReturnCode 0),
             Print (Lit banner), Print (Fmt ''* Building for %s now.'' [YStr ''py38'']),
             Print (Lit ''* Doing a wheel!''),
             Run (bdist_wheel_cmd (YStr ''py38'')) (ReturnCode 1),
             Print (Fmt ''Failed to build wheel for %s'' [YStr ''py38''])])
   \<and> build_targets (example_world OpenFailed False (fails_on (sdist_cmd (YStr ''py39''))) [])
     (example_state [] None) [target_py39, target_py38]
     = Inl (Exit 21,
            [Print (Lit banner), Print (Lit ''* Cleaning up egg-info.''),
             Rmtree (Fmt ''%s.egg-info'' [YStr ''pkg'']) False,
             Print (Lit banner),
             Print (Fmt ''* Preparing environment for %s now.'' [YStr ''py39'']),
             Run (install_wheel_cmd (YStr ''py39'')) (ReturnCode 0),
             Print (Lit banner), Print (Fmt ''* Building for %s now.'' [YStr ''py39'']),
             Print (Lit ''* Doing a source distribution!''),
             Run (sdist_cmd (YStr ''py39'')) (ReturnCode 1),
             Print (Fmt ''Failed to build source dist for %s'' [YStr ''py39''])])"
proof -
  let ?S = "example_state [] None"
  let ?W1 = "example_world OpenFailed False (fails_on (bdist_wheel_cmd (YStr ''py38''))) []"
  let ?W2 = "example_world OpenFailed False (fails_on (sdist_cmd (YStr ''py39''))) []"
  let ?head = "[Print (Lit banner), Print (Lit ''* Cleaning up egg-info.''),
                Rmtree (Fmt ''%s.egg-info'' [YStr ''pkg'']) False, Print (Lit banner)]"
  let ?tr38 = "?head @
       [Print (Fmt ''* Preparing environment for %s now.'' [YStr ''py38'']),
        Run (install_wheel_cmd (YStr ''py38'')) (ReturnCode 0),
        Print (Lit banner), Print (Fmt ''* Building for %s now.'' [YStr ''py38''])]"
  let ?tr39 = "?head @
       [Print (Fmt ''* Preparing environment for %s now.'' [YStr ''py39'']),
        Run (install_wheel_cmd (YStr ''py39'')) (ReturnCode 0),
        Print (Lit banner), Print (Fmt ''* Building for %s now.'' [YStr ''py39''])]"
  have start1: "build_targets ?W1 ?S [] = Inr ?S" and start2: "build_targets ?W2 ?S [] = Inr ?S"
    by simp_all
  have py38: "subscript target_py38 ''python'' = Inr (YStr ''py38'')"
    and py39: "subscript target_py39 ''python'' = Inr (YStr ''py39'')"
    by (simp_all add: example_defs)
  have inst1: "install_helper ?W1 (YStr ''py38'')
                 (cleanup_egg_info ?W1 (config ?S)
                    (trace ?S @ [Print (Lit banner), Print (Lit ''* Cleaning up egg-info.'')])) = Inr ?tr38"
    by (simp add: example_defs step_defs)
  have inst2: "install_helper ?W2 (YStr ''py39'')
                 (cleanup_egg_info ?W2 (config ?S)
                    (trace ?S @ [Print (Lit banner), Print (Lit ''* Cleaning up egg-info.'')])) = Inr ?tr39"
    by (simp add: example_defs step_defs)
  have wheel: "build_sdist ?W1 target_py38 (YStr ''py38'') ?tr38 = Inr ?tr38
       \<and> dict_get target_py38 ''wheel'' (YBool False) = Inr (YBool True) \<and> truthy (YBool True)
       \<and> run ?W1 (?tr38 @ [Print (Lit ''* Doing a wheel!'')]) (bdist_wheel_cmd (YStr ''py38''))
            = ReturnCode 1 \<and> (1::int) \<noteq> 0"
    by (simp add: example_defs step_defs)
  have sdist: "dict_get target_py39 ''sdist'' (YBool False) = Inr (YBool True) \<and> truthy (YBool True)
       \<and> run ?W2 (?tr39 @ [Print (Lit ''* Doing a source distribution!'')]) (sdist_cmd (YStr ''py39''))
            = ReturnCode 1 \<and> (1::int) \<noteq> 0"
    by (simp add: example_defs step_defs)
  from build_failure_halts [OF start1 py38 inst1, of "YBool True" 1 "[target_py39]" ?tr38] wheel
  have "build_targets ?W1 ?S ([] @ target_py38 # [target_py39]) =
          Inl (Exit 20, ?tr38 @ [Print (Lit ''* Doing a wheel!''),
                                 Run (bdist_wheel_cmd (YStr ''py38'')) (ReturnCode 1),
                                 Print (Fmt ''Failed to build wheel for %s'' [YStr ''py38''])])"
    by blast
  moreover
  from build_failure_halts [OF start2 py39 inst2, of "YBool True" 1 "[target_py38]" ?tr39] sdist
  have "build_targets ?W2 ?S ([] @ target_py39 # [target_py38]) =
          Inl (Exit 21, ?tr39 @ [Print (Lit ''* Doing a source distribution!''),
                                 Run (sdist_cmd (YStr ''py39'')) (ReturnCode 1),
                                 Print (Fmt ''Failed to build source dist for %s'' [YStr ''py39''])])"
    by blast
  ultimately show ?thesis by simp
qed


subsection \<open>Publisher: a failing upload\<close>

text \<open>
  Claim C3 says that a failing upload ends the run with \<^verbatim>\<open>ExitCodes.PYPI_FAILURE\<close>,
  which is 50. The source writes \<^verbatim>\<open>exit(ExitCodes.PYPI_UPLOAD_FAILURE)\<close>, a name the
  class does not define. In the run below both credentials are set, uploads are not
  restricted to tags, an endpoint is configured, the group \<^verbatim>\<open>bare\<close> has one target,
  and every command succeeds except the upload: the run ends with an uncaught
  \<^verbatim>\<open>AttributeError\<close> after the upload command, not with exit code 50.
\<close>

theorem upload_failure_exit_code:
  "fst (wheelman
         (example_world
            (Loaded (YMap (example_entries [(YStr ''only_upload_tags'', YBool False),
                                            (YStr ''target_url'', YStr upload_url)])))
            False
            (fails_on (upload_cmd (YStr ''python'') ''twine/__main__.py'' (YStr upload_url)))
            credentials)
         ''bare'' ''.wheelman.yml'')
     = Uncaught AttributeError
   \<and> run_cmds (snd (wheelman
         (example_world
            (Loaded (YMap (example_entries [(YStr ''only_upload_tags'', YBool False),
                                            (YStr ''target_url'', YStr upload_url)])))
            False
            (fails_on (upload_cmd (YStr ''python'') ''twine/__main__.py'' (YStr upload_url)))
            credentials)
         ''bare'' ''.wheelman.yml''))
     = [[YStr ''py39'', YStr ''-m'', YStr ''pip'', YStr ''install'', YStr ''wheel''],
        [YStr ''py39'', YStr ''-m'', YStr ''pip'', YStr ''install'', YStr ''twine''],
        [YStr ''python'', YStr ''twine/__main__.py'', YStr ''upload'', YStr ''--non-interactive'',
         YStr ''--repository-url'', YStr upload_url, YStr ''dist/*'']]
   \<and> ExitCodes ''PYPI_UPLOAD_FAILURE'' = None
   \<and> ExitCodes ''PYPI_FAILURE'' = Some 50"
  by (simp add: script_defs example_defs step_defs exit_with_simps ExitCodes_def)


subsection \<open>Target Builder: no group, no build\<close>

text \<open>
  Claim C4. When the configuration is a mapping whose \<^verbatim>\<open>targets\<close> entry is a mapping
  that is empty or has no key equal to the requested group, the target builder adds no
  event (so it runs no install-helper, sdist or wheel command), does not end the run,
  and hands the unchanged state to the publisher.
\<close>

theorem empty_group_builds_nothing:
  assumes "config st = YMap c"
    and "map_of c (YStr ''targets'') = Some (YMap groups)"
    and "groups = [] \<or> map_of groups (YStr target) = None"
  shows "target_builder w target st = Inr st
         \<and> build_and_publish w target st = finish (publisher w st)"
  using assms by (auto simp: target_builder_def build_and_publish_def)

theorem empty_group_builds_nothing_witness:
  "config (example_state [] None) = YMap (example_entries [])
   \<and> map_of (example_entries []) (YStr ''targets'') = Some (YMap example_groups)
   \<and> (example_groups = [] \<or> map_of example_groups (YStr ''nightly'') = None)
   \<and> target_builder (example_world OpenFailed False all_succeed []) ''nightly'' (example_state [] None)
       = Inr (example_state [] None)"
  using empty_group_builds_nothing [of "example_state [] None" "example_entries []" example_groups
      "''nightly''" "example_world OpenFailed False all_succeed []"]
  by (simp add: example_defs)


subsection \<open>Target Builder: a target without build flags\<close>

text \<open>
  Claim C5. For a target that has a \<^verbatim>\<open>python\<close> entry and whose \<^verbatim>\<open>sdist\<close> and
  \<^verbatim>\<open>wheel\<close> flags are false or absent, the only subprocess call of the iteration is
  \<^verbatim>\<open>pip install wheel\<close> for that target's interpreter, whatever that call answers:
  the install-helper step runs and no build command does.
\<close>

theorem flags_false_only_install:
  assumes "subscript target ''python'' = Inr py"
    and "dict_get target ''sdist'' (YBool False) = Inr s" and "\<not> truthy s"
    and "dict_get target ''wheel'' (YBool False) = Inr wh" and "\<not> truthy wh"
  shows "run_cmds (events_of (build_target w st target)) =
           run_cmds (trace st) @ [install_wheel_cmd py]"
  using assms
  by (simp add: build_target_def build_steps_def install_helper_def run_checked_def
      build_sdist_def build_wheel_def Let_def run_cmds_append run_cmds_cleanup
      split: run_result.splits)

theorem flags_false_only_install_witness:
  "subscript target_bare ''python'' = Inr (YStr ''py39'')
   \<and> dict_get target_bare ''sdist'' (YBool False) = Inr (YBool False)
   \<and> dict_get target_bare ''wheel'' (YBool False) = Inr (YBool False)
   \<and> run_cmds (events_of (build_target (example_world OpenFailed False all_succeed [])
                            (example_state [] None) target_bare))
       = [[YStr ''py39'', YStr ''-m'', YStr ''pip'', YStr ''install'', YStr ''wheel'']]"
  using flags_false_only_install [where target = target_bare and py = "YStr ''py39''"
      and s = "YBool False" and wh = "YBool False"
      and w = "example_world OpenFailed False all_succeed []" and st = "example_state [] None"]
  by (simp add: example_defs install_wheel_cmd_def)


subsection \<open>Configuration Loader: a malformed file\<close>

text \<open>
  Claim C6 says that a malformed configuration file ends the run with
  \<^verbatim>\<open>ExitCodes.CONFIG_YAML_PARSING_ERROR\<close>, which is 12, and with the position of the
  failure. The handler that would do so is never entered: its clause reads
  \<^verbatim>\<open>except yaml.YAMLError, exc:\<close>, and evaluating the unbound name \<^verbatim>\<open>exc\<close> raises
  \<^verbatim>\<open>NameError\<close>. For a marked and for a plain YAML error alike, the loader ends the run
  with that uncaught exception, right after the attempt to load the file: no message of
  the handler is printed and the exit code is not 12.
\<close>

theorem malformed_config_outcome:
  "config_loader (example_world (YAMLError (MarkedYAMLError 2 0)) False all_succeed []) ''bad.yml''
     = Inl (Uncaught NameError,
            [Print (Fmt ''* Loading config file from %s'' [YStr ''bad.yml'']), LoadConfig ''bad.yml''])
   \<and> config_loader (example_world (YAMLError PlainYAMLError) False all_succeed []) ''bad.yml''
     = Inl (Uncaught NameError,
            [Print (Fmt ''* Loading config file from %s'' [YStr ''bad.yml'']), LoadConfig ''bad.yml''])
   \<and> fst (wheelman (example_world (YAMLError (MarkedYAMLError 2 0)) False all_succeed [])
             ''main'' ''bad.yml'') \<noteq> Exit 12
   \<and> ExitCodes ''CONFIG_YAML_PARSING_ERROR'' = Some 12"
  by (simp add: wheelman_def config_loader_def example_world_def ExitCodes_def)


subsection \<open>Configuration Loader: a file that cannot be opened\<close>

text \<open>
  Claim C7 says that a configuration file that cannot be opened ends the run with
  \<^verbatim>\<open>ExitCodes.CONFIG_FILE_NOT_FOUND\<close>, which is 11. The clause
  \<^verbatim>\<open>except yaml.YAMLError, exc:\<close> is evaluated first for every exception of the
  \<^verbatim>\<open>try\<close> block and raises \<^verbatim>\<open>NameError\<close>, so the second handler is never reached:
  the loader ends the run with that uncaught exception, and the exit code is not 11.
\<close>

theorem missing_config_outcome:
  "config_loader (example_world OpenFailed False all_succeed []) ''missing.yml''
     = Inl (Uncaught NameError,
            [Print (Fmt ''* Loading config file from %s'' [YStr ''missing.yml'']),
             LoadConfig ''missing.yml''])
   \<and> fst (wheelman (example_world OpenFailed False all_succeed []) ''main'' ''missing.yml'')
       \<noteq> Exit 11
   \<and> ExitCodes ''CONFIG_FILE_NOT_FOUND'' = Some 11"
  by (simp add: wheelman_def config_loader_def example_world_def ExitCodes_def)


subsection \<open>Target Builder: a failing clean-up\<close>

text \<open>
  Claim C8. When deleting the package's \<^verbatim>\<open>.egg-info\<close> directory raises, the
  iteration carries on as it does after a deletion that worked: the rest of the loop body
  runs from the events that record the failed deletion, and for a target with a
  \<^verbatim>\<open>python\<close> entry the next subprocess call, \<^verbatim>\<open>pip install wheel\<close>, is made.
\<close>

theorem egg_info_failure_swallowed:
  assumes "subscript (config st) ''name'' = Inr pkg"
    and "rmtree_fails w (trace st @ [Print (Lit banner), Print (Lit ''* Cleaning up egg-info.'')])
           (Fmt ''%s.egg-info'' [pkg])"
    and "subscript target ''python'' = Inr py"
  shows "(let tr1 = trace st @ [Print (Lit banner), Print (Lit ''* Cleaning up egg-info.''),
                               Rmtree (Fmt ''%s.egg-info'' [pkg]) True];
              tr2 = tr1 @ [Print (Lit banner),
                           Print (Fmt ''* Preparing environment for %s now.'' [py])]
          in build_target w st target = build_steps w st target tr1
             \<and> prefix (tr2 @ [Run (install_wheel_cmd py) (run w tr2 (install_wheel_cmd py))])
                  (events_of (build_target w st target)))"
  using assms
  by (auto simp: build_target_def build_steps_def install_helper_def run_checked_def
      build_sdist_def build_wheel_def cleanup_egg_info_def Let_def
      split: run_result.splits sum.splits)

theorem egg_info_failure_swallowed_witness:
  "subscript (config (example_state [] None)) ''name'' = Inr (YStr ''pkg'')
   \<and> rmtree_fails (example_world OpenFailed True all_succeed [])
        (trace (example_state [] None) @ [Print (Lit banner), Print (Lit ''* Cleaning up egg-info.'')])
        (Fmt ''%s.egg-info'' [YStr ''pkg''])
   \<and> subscript target_py38 ''python'' = Inr (YStr ''py38'')
   \<and> build_target (example_world OpenFailed True all_succeed []) (example_state [] None) target_py38
       = Inr \<lparr>config = YMap (example_entries []), py_exe = Some (YStr ''py38''),
              trace = [Print (Lit banner), Print (Lit ''* Cleaning up egg-info.''),
                       Rmtree (Fmt ''%s.egg-info'' [YStr ''pkg'']) True,
                       Print (Lit banner),
                       Print (Fmt ''* Preparing environment for %s now.'' [YStr ''py38'']),
                       Run (install_wheel_cmd (YStr ''py38'')) (ReturnCode 0),
                       Print (Lit banner), Print (Fmt ''* Building for %s now.'' [YStr ''py38'']),
                       Print (Lit ''* Doing a wheel!''),
                       Run (bdist_wheel_cmd (YStr ''py38'')) (ReturnCode 0)]\<rparr>"
  using egg_info_failure_swallowed [where st = "example_state [] None" and pkg = "YStr ''pkg''"
      and w = "example_world OpenFailed True all_succeed []" and target = target_py38
      and py = "YStr ''py38''"]
  by (simp add: example_defs build_steps_def install_helper_def build_sdist_def build_wheel_def
      run_checked_def Let_def)


subsection \<open>Publisher: the interpreter that installs the upload tool\<close>




subsection \<open>Publisher: an empty endpoint\<close>

text \<open>
  Claim C10. In the publish branch a \<^verbatim>\<open>target_url\<close> that is the empty string is
  handled as a missing one: either way the run ends with exit code 52 after the error
  message, and the branch makes no subprocess call.
\<close>

theorem empty_target_url_is_missing:
  assumes "map_of kvs (YStr ''target_url'') = None \<or> map_of kvs (YStr ''target_url'') = Some (YStr [])"
  shows "publish w st (YMap kvs) u =
           Inl (Exit 52, trace st @ [Print (Lit banner), Print (Lit ''* Preparing to upload to twine.''),
                                     Print (Lit ''* Ensuring that twine is installed.''),
                                     Print (Lit ''* ERROR: Missing pypi->target_url value in build.yml.'')])
         \<and> run_cmds (events_of (publish w st (YMap kvs) u)) = run_cmds (trace st)"
  using assms by (auto simp: publish_def Let_def exit_with_simps run_cmds_append)

theorem empty_target_url_is_missing_witness:
  "(map_of [(YStr ''target_url'', YStr [])] (YStr ''target_url'') = None
      \<or> map_of [(YStr ''target_url'', YStr [])] (YStr ''target_url'') = Some (YStr []))
   \<and> publish (example_world OpenFailed False all_succeed credentials)
       (state_after_bare [(YStr ''target_url'', YStr [])])
       (YMap [(YStr ''target_url'', YStr [])]) (Some ''u'')
     = Inl (Exit 52, trace (state_after_bare [(YStr ''target_url'', YStr [])]) @
              [Print (Lit banner), Print (Lit ''* Preparing to upload to twine.''),
               Print (Lit ''* Ensuring that twine is installed.''),
               Print (Lit ''* ERROR: Missing pypi->target_url value in build.yml.'')])
   \<and> run_cmds (events_of (publish (example_world OpenFailed False all_succeed credentials)
                 (state_after_bare [(YStr ''target_url'', YStr [])])
                 (YMap [(YStr ''target_url'', YStr [])]) (Some ''u'')))
     = [install_wheel_cmd (YStr ''py39'')]"
  using empty_target_url_is_missing [where kvs = "[(YStr ''target_url'', YStr [])]"
      and w = "example_world OpenFailed False all_succeed credentials"
      and st = "state_after_bare [(YStr ''target_url'', YStr [])]" and u = "Some ''u''"]
  by (simp add: state_after_bare_def)


end
